theory Spec2Isabelle
  imports Main
begin

section \<open>JavaScript values\<close>

text \<open>
  The regular-expression literals of \<^verbatim>\<open>webpack-utils.js\<close> use characters, concatenation,
  alternation, the optional marker \<^verbatim>\<open>?\<close> and the end anchor \<^verbatim>\<open>$\<close>; all but the
  dependency pattern carry the \<^verbatim>\<open>i\<close> flag.
\<close>

datatype re = Eps | Chr char | Cat re re | Alt re re | Opt re | Eol

datatype regexp = RegExp re bool

text \<open>Builders for a literal run of characters, a sequence and a group of alternatives.\<close>

fun str :: "string \<Rightarrow> re" where
  "str [] = Eps"
| "str (c # cs) = Cat (Chr c) (str cs)"

fun seq :: "re list \<Rightarrow> re" where
  "seq [] = Eps"
| "seq (r # rs) = Cat r (seq rs)"

fun alts :: "re list \<Rightarrow> re" where
  "alts [] = Eps"
| "alts [r] = r"
| "alts (r # rs) = Alt r (alts rs)"

text \<open>
  Case folding of the \<^verbatim>\<open>i\<close> flag: lower-case ASCII letters are compared as their upper-case
  counterparts, every other character as itself.
\<close>

definition canonicalize :: "char \<Rightarrow> char" where
  "canonicalize c =
     (case map_of (zip ''abcdefghijklmnopqrstuvwxyz'' ''ABCDEFGHIJKLMNOPQRSTUVWXYZ'') c of
        None \<Rightarrow> c
      | Some u \<Rightarrow> u)"

definition char_eq :: "bool \<Rightarrow> char \<Rightarrow> char \<Rightarrow> bool" where
  "char_eq ic c d = (if ic then canonicalize c = canonicalize d else c = d)"

text \<open>
  \<open>re_match ic r s\<close> lists what is left of \<open>s\<close> after each way of matching \<open>r\<close> at its
  start, in the order a backtracking matcher tries them.
\<close>

fun re_match :: "bool \<Rightarrow> re \<Rightarrow> string \<Rightarrow> string list" where
  "re_match ic Eps s = [s]"
| "re_match ic (Chr c) [] = []"
| "re_match ic (Chr c) (x # xs) = (if char_eq ic c x then [xs] else [])"
| "re_match ic (Cat a b) s = concat (map (re_match ic b) (re_match ic a s))"
| "re_match ic (Alt a b) s = re_match ic a s @ re_match ic b s"
| "re_match ic (Opt a) s = re_match ic a s @ [s]"
| "re_match ic Eol s = (if s = [] then [s] else [])"

text \<open>An unanchored search: the pattern is tried at every position of the string.\<close>

fun re_search :: "bool \<Rightarrow> re \<Rightarrow> string \<Rightarrow> bool" where
  "re_search ic r [] = (re_match ic r [] \<noteq> [])"
| "re_search ic r (x # xs) = (re_match ic r (x # xs) \<noteq> [] \<or> re_search ic r xs)"

fun regexp_test :: "regexp \<Rightarrow> string \<Rightarrow> bool" where
  "regexp_test (RegExp r ic) s = re_search ic r s"

text \<open>
  Values as the configuration holds them. \<open>JObj\<close> keeps the properties in insertion order;
  \<open>JNew c args\<close> is the instance made by \<^verbatim>\<open>new c(args)\<close> of a class of an external package.
\<close>

datatype jv =
    JUndefined
  | JNull
  | JBool bool
  | JNum int
  | JStr string
  | JRegExp regexp
  | JArr "jv list"
  | JObj "(string \<times> jv) list"
  | JNew string "jv list"

type_synonym obj = "(string \<times> jv) list"

fun truthy :: "jv \<Rightarrow> bool" where
  "truthy JUndefined = False"
| "truthy JNull = False"
| "truthy (JBool b) = b"
| "truthy (JNum n) = (n \<noteq> 0)"
| "truthy (JStr s) = (s \<noteq> [])"
| "truthy (JRegExp r) = True"
| "truthy (JArr xs) = True"
| "truthy (JObj kvs) = True"
| "truthy (JNew c args) = True"

text \<open>\<^verbatim>\<open>a || b\<close> on values already computed.\<close>

definition js_or :: "jv \<Rightarrow> jv \<Rightarrow> jv" where
  "js_or a b = (if truthy a then a else b)"

text \<open>Property read \<^verbatim>\<open>o[k]\<close> on an object: a missing property reads as \<^verbatim>\<open>undefined\<close>.\<close>

fun obj_get :: "obj \<Rightarrow> string \<Rightarrow> jv" where
  "obj_get [] k = JUndefined"
| "obj_get ((k', v) # kvs) k = (if k' = k then v else obj_get kvs k)"

text \<open>
  Property write, as an object literal or a spread performs it: an existing key keeps its
  place and takes the new value, a new key goes to the end.
\<close>

fun set_prop :: "obj \<Rightarrow> string \<Rightarrow> jv \<Rightarrow> obj" where
  "set_prop [] k v = [(k, v)]"
| "set_prop ((k', v') # kvs) k v = (if k' = k then (k, v) # kvs else (k', v') # set_prop kvs k v)"

text \<open>\<^verbatim>\<open>{ ...acc, ...o }\<close>: the properties of \<open>o\<close> are written onto \<open>acc\<close> in order.\<close>

fun spread :: "obj \<Rightarrow> obj \<Rightarrow> obj" where
  "spread acc [] = acc"
| "spread acc ((k, v) # kvs) = spread (set_prop acc k v) kvs"

fun js_get :: "jv \<Rightarrow> string \<Rightarrow> jv" where
  "js_get (JObj kvs) k = obj_get kvs k"
| "js_get v k = JUndefined"

fun js_at :: "jv \<Rightarrow> nat \<Rightarrow> jv" where
  "js_at (JArr xs) i = (if i < length xs then xs ! i else JUndefined)"
| "js_at v i = JUndefined"

section \<open>Settings\<close>

definition BuildMode_development :: string where
  "BuildMode_development = ''development''"

definition BuildMode_production :: string where
  "BuildMode_production = ''production''"

record IBuildPaths =
  entryFile :: string
  outputPath :: string
  indexHtmlTemplate :: string
  devServerContentPath :: string

record IFilesPatterns =
  dependenciesFiles :: regexp
  sourceMapFiles :: regexp
  javascriptFiles :: regexp
  typescriptFiles :: regexp
  cssFiles :: regexp
  imageFiles :: regexp
  fontFiles :: regexp
  wasmFiles :: regexp
  unityFiles :: regexp

record CopyInstruction =
  to :: string
  "from" :: string

record ISettings =
  mode :: string
  paths :: IBuildPaths
  patterns :: IFilesPatterns
  copyExistingFiles :: "CopyInstruction list option"

text \<open>
  What the loader reads from the Node process: \<^verbatim>\<open>process.env.NODE_ENV\<close> (a string when
  set) and \<^verbatim>\<open>process.cwd()\<close>. \<^verbatim>\<open>path.join\<close> belongs to Node and is a parameter.
\<close>

record process =
  NODE_ENV :: "string option"
  cwd :: string

text \<open>One entry per call of \<^verbatim>\<open>console.log\<close>.\<close>

datatype logged = LogValue string jv | LogSettings string ISettings | LogText string

type_synonym console = "logged list"

text \<open>
  The two log labels open with a newline, a guillemet and a gear sign; they are kept here as
  the bytes of their UTF-8 encoding.
\<close>

definition label_prefix :: string where
  "label_prefix =
     [CHR 0x0A, CHR 0xC2, CHR 0xBB, CHR 0x20, CHR 0xE2, CHR 0x9A, CHR 0x99, CHR 0x20]"

definition option_jv :: "string option \<Rightarrow> jv" where
  "option_jv x = (case x of None \<Rightarrow> JUndefined | Some s \<Rightarrow> JStr s)"

text \<open>
  \<open>argv\<close> is the arguments object (\<^verbatim>\<open>Record<string, string>\<close>) and \<open>env\<close> the
  environment descriptor, which is only logged. The returned console is the given one with
  the two log entries added.
\<close>

definition loadSettings ::
  "(string \<Rightarrow> string \<Rightarrow> string) \<Rightarrow> process \<Rightarrow> jv \<Rightarrow> obj \<Rightarrow> console \<Rightarrow> ISettings \<times> console"
where
  "loadSettings path_join p env argv out =
     (let out1 = out @ [LogValue (label_prefix @ ''Environment Variables and Arguments:'' @ [CHR 0x0A, CHR 0x0A])
                   (JObj [(''env'', env), (''argv'', JObj argv),
                          (''process.env'', JObj [(''NODE_ENV'', option_jv (NODE_ENV p))])])];
          environment = js_or (js_or (option_jv (NODE_ENV p)) (obj_get argv ''mode''))
                          (JStr ''development'');
          basePath = cwd p;
          srcPath = path_join basePath ''src'';
          distPath = path_join basePath ''dist'';
          settings = \<lparr>
            mode = (if environment = JStr ''production'' then BuildMode_production
                    else BuildMode_development),
            paths = \<lparr>
              entryFile = path_join srcPath ''index.ts'',
              outputPath = distPath,
              indexHtmlTemplate = path_join srcPath ''index.html'',
              devServerContentPath = distPath \<rparr>,
            patterns = \<lparr>
              dependenciesFiles = RegExp (str ''node_modules'') False,
              sourceMapFiles = RegExp (seq [str ''.js'', Opt (Chr CHR ''x''), Eol]) True,
              javascriptFiles = RegExp (seq [str ''.js'', Opt (Chr CHR ''x''), Eol]) True,
              typescriptFiles = RegExp (seq [str ''.ts'', Opt (Chr CHR ''x''), Eol]) True,
              cssFiles = RegExp (seq [str ''.css'', Eol]) True,
              imageFiles = RegExp (seq [str ''.'',
                alts [str ''png'', str ''svg'', str ''jpg'', str ''jpeg'', str ''gif''], Eol]) True,
              fontFiles = RegExp (seq [str ''.'',
                alts [str ''woff'', str ''woff2'', str ''eot'', str ''ttf'', str ''otf''], Eol]) True,
              wasmFiles = RegExp (seq [str ''.wasm'', Eol]) True,
              unityFiles = RegExp (seq [str ''.unity'', Eol]) True \<rparr>,
            copyExistingFiles = None \<rparr>;
          out2 = out1 @ [LogSettings (label_prefix @ ''Build Settings:'' @ [CHR 0x0A, CHR 0x0A]) settings]
      in (settings, out2))"

section \<open>Loaders\<close>

text \<open>Each factory returns an array of rules (\<^verbatim>\<open>RuleSetRule[]\<close>).\<close>

definition createSourceMapsLoader :: "ISettings \<Rightarrow> jv list" where
  "createSourceMapsLoader settings =
     [JObj [(''test'', JRegExp (sourceMapFiles (patterns settings))),
            (''exclude'', JRegExp (dependenciesFiles (patterns settings))),
            (''enforce'', JStr ''pre''),
            (''use'', JArr [JStr ''source-map-loader''])]]"

definition createLanguageLoader :: "ISettings \<Rightarrow> jv list" where
  "createLanguageLoader settings =
     [JObj [(''test'', JRegExp (javascriptFiles (patterns settings))),
            (''exclude'', JRegExp (dependenciesFiles (patterns settings))),
            (''use'', JArr
               [JObj [(''loader'', JStr ''babel-loader''),
                      (''options'', JObj
                         [(''targets'', JStr ''defaults''),
                          (''sourceMaps'', JBool (mode settings = BuildMode_development)),
                          (''presets'', JArr [JStr ''@babel/preset-env'']),
                          (''plugins'', JArr [JStr ''@babel/plugin-transform-runtime''])])]])],
      JObj [(''test'', JRegExp (typescriptFiles (patterns settings))),
            (''exclude'', JRegExp (dependenciesFiles (patterns settings))),
            (''use'', JArr
               [JObj [(''loader'', JStr ''babel-loader''),
                      (''options'', JObj
                         [(''targets'', JStr ''defaults''),
                          (''sourceMaps'', JBool (mode settings = BuildMode_development)),
                          (''presets'', JArr
                             [JStr ''@babel/preset-env'',
                              JArr [JStr ''@babel/preset-react'',
                                    JObj [(''runtime'', JStr ''automatic''),
                                          (''development'',
                                             JBool (mode settings = BuildMode_development))]],
                              JStr ''@babel/preset-typescript'']),
                          (''plugins'', JArr
                             [JStr ''@babel/plugin-transform-runtime'',
                              JStr ''@babel/plugin-proposal-class-properties''])])],
                JObj [(''loader'', JStr ''astroturf/loader''),
                      (''options'', JObj [(''extension'', JStr ''.module.css'')])]])]]"

definition createStylesLoader :: "ISettings \<Rightarrow> jv list" where
  "createStylesLoader settings =
     [JObj [(''test'', JRegExp (cssFiles (patterns settings))),
            (''use'', JArr
               [JStr ''style-loader'',
                JStr ''css-loader'',
                JObj [(''loader'', JStr ''postcss-loader''),
                      (''options'', JObj
                         [(''postcssOptions'', JObj
                            [(''plugins'', JArr
                               [JStr ''postcss-import'',
                                JStr ''tailwindcss/nesting'',
                                JArr [JStr ''tailwindcss'',
                                      JObj [(''purge'', JObj
                                         [(''enabled'',
                                             JBool (mode settings = BuildMode_production)),
                                          (''content'', JArr
                                             [JStr ''./src/**/*.html'',
                                              JStr ''./src/**/*.ts'',
                                              JStr ''./src/**/*.tsx''])])]],
                                JArr [JStr ''postcss-preset-env'',
                                      JObj [(''stage'', JNum 3),
                                            (''features'', JObj
                                               [(''nesting-rules'', JBool False)])]]])])])]])]]"

definition createImagesLoader :: "ISettings \<Rightarrow> jv list" where
  "createImagesLoader settings =
     [JObj [(''test'', JRegExp (imageFiles (patterns settings))),
            (''type'', JStr ''asset/resource'')]]"

definition createFontsLoader :: "ISettings \<Rightarrow> jv list" where
  "createFontsLoader settings =
     [JObj [(''test'', JRegExp (fontFiles (patterns settings))),
            (''type'', JStr ''asset/resource'')]]"

definition createWasmLoader :: "ISettings \<Rightarrow> jv list" where
  "createWasmLoader settings =
     [JObj [(''test'', JRegExp (wasmFiles (patterns settings))),
            (''type'', JStr ''asset/resource'')]]"

definition createUnityLoader :: "ISettings \<Rightarrow> jv list" where
  "createUnityLoader settings =
     [JObj [(''test'', JRegExp (unityFiles (patterns settings))),
            (''type'', JStr ''asset/resource'')]]"

section \<open>Plugins\<close>

definition createHtmlBundleInjectionPlugin :: "ISettings \<Rightarrow> jv" where
  "createHtmlBundleInjectionPlugin settings =
     JNew ''HtmlWebpackPlugin'' [JObj [(''template'', JStr (indexHtmlTemplate (paths settings)))]]"

definition createEnvironmentVariablesPlugin :: "ISettings \<Rightarrow> jv" where
  "createEnvironmentVariablesPlugin settings =
     JNew ''Dotenv'' [JObj [(''path'', JStr (''./.env.'' @ mode settings)),
                            (''systemvars'', JBool True)]]"

text \<open>A copy instruction as an object, its properties in the order of the type's declaration.\<close>

definition CopyInstruction_jv :: "CopyInstruction \<Rightarrow> jv" where
  "CopyInstruction_jv c = JObj [(''to'', JStr (to c)), (''from'', JStr (from c))]"

text \<open>
  The plain \<^verbatim>\<open>return;\<close> of the guard yields \<^verbatim>\<open>undefined\<close>. An unset
  \<open>copyExistingFiles\<close> is falsy; an array is truthy whatever its length, so the length test
  decides for it.
\<close>

definition createFileCopyPlugin :: "ISettings \<Rightarrow> jv" where
  "createFileCopyPlugin settings =
     (case copyExistingFiles settings of
        None \<Rightarrow> JUndefined
      | Some instructions \<Rightarrow>
          if length instructions = 0 then JUndefined
          else JNew ''CopyPlugin''
                 [JObj [(''patterns'', JArr (map CopyInstruction_jv instructions))]])"

section \<open>Configuration sections\<close>

definition configureBuildMode :: "ISettings \<Rightarrow> obj" where
  "configureBuildMode settings = [(''mode'', JStr (mode settings))]"

definition configureAppEntryPoints :: "ISettings \<Rightarrow> obj" where
  "configureAppEntryPoints settings = [(''entry'', JStr (entryFile (paths settings)))]"

definition configureBundleOutput :: "ISettings \<Rightarrow> obj" where
  "configureBundleOutput settings =
     [(''output'', JObj [(''path'', JStr (outputPath (paths settings))),
                         (''filename'', JStr ''bundle.js''),
                         (''publicPath'', JStr ''/'')])]"

definition configureNodeJsBasicPolyfills :: "ISettings \<Rightarrow> obj" where
  "configureNodeJsBasicPolyfills settings =
     [(''node'', JObj [(''global'', JBool True),
                       (''__filename'', JBool False),
                       (''__dirname'', JBool False)])]"

definition configureSupportedFileExtensions :: "ISettings \<Rightarrow> obj" where
  "configureSupportedFileExtensions settings =
     [(''extensions'', JArr [JStr ''.ts'', JStr ''.tsx'', JStr ''...''])]"

definition configureNodeJsFallbacks :: "ISettings \<Rightarrow> obj" where
  "configureNodeJsFallbacks settings =
     [(''fallback'', JObj [(''fs'', JBool False), (''path'', JBool False)])]"

definition configureLoaders :: "ISettings \<Rightarrow> obj" where
  "configureLoaders settings =
     (let rules = [];
          rules = rules @ createStylesLoader settings;
          rules = rules @ createLanguageLoader settings;
          rules = rules @ createImagesLoader settings;
          rules = rules @ createFontsLoader settings;
          rules = rules @ createWasmLoader settings;
          rules = rules @ createUnityLoader settings
      in [(''module'', JObj
            [(''rules'', JArr
               ((if mode settings = BuildMode_development then createSourceMapsLoader settings
                 else [])
                @ [JObj [(''oneOf'', JArr rules)]]))])])"

definition configureSourceMapsGeneration :: "ISettings \<Rightarrow> obj" where
  "configureSourceMapsGeneration settings =
     [(''devtool'', if mode settings = BuildMode_development
                    then JStr ''inline-cheap-module-source-map'' else JBool False)]"

definition configureDevelopmentServer :: "ISettings \<Rightarrow> obj" where
  "configureDevelopmentServer settings =
     (if mode settings \<noteq> BuildMode_development then [(''devServer'', JUndefined)]
      else [(''devServer'', JObj
              [(''contentBase'', JStr (devServerContentPath (paths settings))),
               (''compress'', JBool True),
               (''port'', JNum 9000),
               (''https'', JBool True),
               (''open'', JBool True),
               (''writeToDisk'', JBool True),
               (''historyApiFallback'', JBool True)])])"

text \<open>\<^verbatim>\<open>.filter(Boolean)\<close> keeps the truthy entries.\<close>

definition configurePlugins :: "ISettings \<Rightarrow> obj" where
  "configurePlugins settings =
     [(''plugins'', JArr (filter truthy
        [createEnvironmentVariablesPlugin settings,
         createHtmlBundleInjectionPlugin settings,
         createFileCopyPlugin settings]))]"

definition configureLogLevel :: "ISettings \<Rightarrow> obj" where
  "configureLogLevel settings = [(''stats'', JStr ''normal'')]"

section \<open>The aggregator\<close>

text \<open>
  The object literal is evaluated from its first line to its last: each spread writes the
  properties of one section onto the object built so far, and \<open>resolve\<close> is written as a
  property of its own whose value is built the same way from two sections.
\<close>

definition buildWebpackConfiguration :: "ISettings \<Rightarrow> console \<Rightarrow> jv \<times> console" where
  "buildWebpackConfiguration settings out =
     (let out1 = out @ [LogText (label_prefix @ ''Webpack Output:'' @ [CHR 0x0A])];
          c = [];
          c = spread c (configureBuildMode settings);
          c = spread c (configureAppEntryPoints settings);
          c = spread c (configureBundleOutput settings);
          c = spread c (configureNodeJsBasicPolyfills settings);
          c = set_prop c ''resolve''
                (JObj (spread (spread [] (configureSupportedFileExtensions settings))
                              (configureNodeJsFallbacks settings)));
          c = spread c (configureLoaders settings);
          c = spread c (configureSourceMapsGeneration settings);
          c = spread c (configureDevelopmentServer settings);
          c = spread c (configurePlugins settings);
          c = spread c (configureLogLevel settings)
      in (JObj c, out1))"

definition getBasicTypeScriptReactWebAppConfiguration ::
  "(string \<Rightarrow> string \<Rightarrow> string) \<Rightarrow> process \<Rightarrow> jv \<Rightarrow> obj \<Rightarrow> console \<Rightarrow> jv \<times> console"
where
  "getBasicTypeScriptReactWebAppConfiguration path_join p env argv out =
     (let (settings, out1) = loadSettings path_join p env argv out
      in buildWebpackConfiguration settings out1)"

section \<open>Invocations\<close>

text \<open>
  The plugin instances are made by constructors of external packages. The definitions above
  keep an instance as the class and the arguments of its \<^verbatim>\<open>new\<close>. To speak of two
  invocations, the functions that call \<^verbatim>\<open>new\<close> are given once more with the constructor
  as a parameter: it receives the class and the arguments, and may read and change a state
  \<open>'x\<close> of the packages. The three constructors run in the order of the array literal of
  \<open>configurePlugins\<close>; every other builder has no effect and is used as it is. The world of
  an invocation is the console together with that state.
\<close>

type_synonym 'x new = "string \<Rightarrow> jv list \<Rightarrow> 'x \<Rightarrow> jv \<times> 'x"

definition createHtmlBundleInjectionPlugin_run :: "'x new \<Rightarrow> ISettings \<Rightarrow> 'x \<Rightarrow> jv \<times> 'x" where
  "createHtmlBundleInjectionPlugin_run new settings x =
     new ''HtmlWebpackPlugin'' [JObj [(''template'', JStr (indexHtmlTemplate (paths settings)))]] x"

definition createEnvironmentVariablesPlugin_run :: "'x new \<Rightarrow> ISettings \<Rightarrow> 'x \<Rightarrow> jv \<times> 'x" where
  "createEnvironmentVariablesPlugin_run new settings x =
     new ''Dotenv'' [JObj [(''path'', JStr (''./.env.'' @ mode settings)),
                           (''systemvars'', JBool True)]] x"

definition createFileCopyPlugin_run :: "'x new \<Rightarrow> ISettings \<Rightarrow> 'x \<Rightarrow> jv \<times> 'x" where
  "createFileCopyPlugin_run new settings x =
     (case copyExistingFiles settings of
        None \<Rightarrow> (JUndefined, x)
      | Some instructions \<Rightarrow>
          if length instructions = 0 then (JUndefined, x)
          else new ''CopyPlugin''
                 [JObj [(''patterns'', JArr (map CopyInstruction_jv instructions))]] x)"

definition configurePlugins_run :: "'x new \<Rightarrow> ISettings \<Rightarrow> 'x \<Rightarrow> obj \<times> 'x" where
  "configurePlugins_run new settings x =
     (let (environment_plugin, x) = createEnvironmentVariablesPlugin_run new settings x;
          (html_plugin, x) = createHtmlBundleInjectionPlugin_run new settings x;
          (copy_plugin, x) = createFileCopyPlugin_run new settings x
      in ([(''plugins'', JArr (filter truthy [environment_plugin, html_plugin, copy_plugin]))],
          x))"

definition buildWebpackConfiguration_run ::
  "'x new \<Rightarrow> ISettings \<Rightarrow> console \<times> 'x \<Rightarrow> jv \<times> console \<times> 'x"
where
  "buildWebpackConfiguration_run new settings world =
     (let out1 = fst world @ [LogText (label_prefix @ ''Webpack Output:'' @ [CHR 0x0A])];
          c = [];
          c = spread c (configureBuildMode settings);
          c = spread c (configureAppEntryPoints settings);
          c = spread c (configureBundleOutput settings);
          c = spread c (configureNodeJsBasicPolyfills settings);
          c = set_prop c ''resolve''
                (JObj (spread (spread [] (configureSupportedFileExtensions settings))
                              (configureNodeJsFallbacks settings)));
          c = spread c (configureLoaders settings);
          c = spread c (configureSourceMapsGeneration settings);
          c = spread c (configureDevelopmentServer settings);
          (plugins, x1) = configurePlugins_run new settings (snd world);
          c = spread c plugins;
          c = spread c (configureLogLevel settings)
      in (JObj c, out1, x1))"

section \<open>How the bundler reads the configuration\<close>

text \<open>
  The rules only say what the bundler is to do; three of the properties below speak of what
  the bundler then does with a file. These definitions state that reading, as the comments of
  \<^verbatim>\<open>webpack-utils.js\<close> and the documentation of the bundler describe it: a rule applies
  to a resource whose path passes its \<open>test\<close> and does not pass its \<open>exclude\<close>; inside \<open>oneOf\<close> the first rule that applies
  is the only one used; and the entry \<^verbatim>\<open>'...'\<close> of the extension list stands for the
  default extensions.
\<close>

fun condition_holds :: "jv \<Rightarrow> string \<Rightarrow> bool \<Rightarrow> bool" where
  "condition_holds (JRegExp r) resource absent = regexp_test r resource"
| "condition_holds v resource absent = absent"

definition rule_applies :: "jv \<Rightarrow> string \<Rightarrow> bool" where
  "rule_applies rule resource =
     (condition_holds (js_get rule ''test'') resource True \<and>
      \<not> condition_holds (js_get rule ''exclude'') resource False)"

fun oneOf_claim :: "jv list \<Rightarrow> string \<Rightarrow> jv option" where
  "oneOf_claim [] resource = None"
| "oneOf_claim (rule # rules) resource =
     (if rule_applies rule resource then Some rule else oneOf_claim rules resource)"

definition default_extensions :: "jv list" where
  "default_extensions = [JStr ''.js'', JStr ''.json'', JStr ''.wasm'']"

fun expand_extensions :: "jv list \<Rightarrow> jv list" where
  "expand_extensions [] = []"
| "expand_extensions (e # es) =
     (if e = JStr ''...'' then default_extensions @ expand_extensions es
      else e # expand_extensions es)"

fun elements :: "jv \<Rightarrow> jv list" where
  "elements (JArr xs) = xs"
| "elements v = []"

text \<open>
  The directories and the file name of a path, split at \<^verbatim>\<open>/\<close>. A resource is under
  \<^verbatim>\<open>node_modules\<close> when one of these is \<^verbatim>\<open>node_modules\<close>.
\<close>

fun split_path :: "string \<Rightarrow> string \<Rightarrow> string list" where
  "split_path name [] = [name]"
| "split_path name (c # cs) =
     (if c = CHR ''/'' then name # split_path [] cs else split_path (name @ [c]) cs)"

definition segments :: "string \<Rightarrow> string list" where
  "segments resource = split_path [] resource"

section \<open>Helper facts\<close>

lemmas section_defs =
  configureBuildMode_def configureAppEntryPoints_def configureBundleOutput_def
  configureNodeJsBasicPolyfills_def configureSupportedFileExtensions_def
  configureNodeJsFallbacks_def configureLoaders_def configureSourceMapsGeneration_def
  configureDevelopmentServer_def configurePlugins_def configureLogLevel_def

lemma aggregate_sections:
  "fst (buildWebpackConfiguration s out) =
     JObj (configureBuildMode s @ configureAppEntryPoints s @ configureBundleOutput s @
       configureNodeJsBasicPolyfills s @
       [(''resolve'', JObj (configureSupportedFileExtensions s @ configureNodeJsFallbacks s))] @
       configureLoaders s @ configureSourceMapsGeneration s @ configureDevelopmentServer s @
       configurePlugins s @ configureLogLevel s)"
  by (simp add: buildWebpackConfiguration_def section_defs Let_def)

lemma obj_get_absent: "k \<notin> fst ` set kvs \<Longrightarrow> obj_get kvs k = JUndefined"
  by (induction kvs) auto

lemma loadSettings_mode:
  "mode (fst (loadSettings path_join p env argv out)) =
     (if js_or (js_or (option_jv (NODE_ENV p)) (obj_get argv ''mode'')) (JStr ''development'') =
         JStr ''production''
      then BuildMode_production else BuildMode_development)"
  by (simp add: loadSettings_def Let_def del: str.simps seq.simps alts.simps)

lemma environment_set:
  "e \<noteq> [] \<Longrightarrow> js_or (js_or (option_jv (Some e)) a) d = JStr e"
  by (simp add: js_or_def option_jv_def)

lemma environment_unset:
  "n = None \<or> n = Some [] \<Longrightarrow>
   js_or (js_or (option_jv n) a) (JStr d) = (if truthy a then a else JStr d)"
  by (auto simp: js_or_def option_jv_def)

lemmas plugin_defs =
  createEnvironmentVariablesPlugin_def createHtmlBundleInjectionPlugin_def
  createFileCopyPlugin_def

lemma plugins_section:
  "js_get (fst (buildWebpackConfiguration s out)) ''plugins'' =
     JArr (filter truthy [createEnvironmentVariablesPlugin s,
                          createHtmlBundleInjectionPlugin s,
                          createFileCopyPlugin s])"
  by (simp add: aggregate_sections section_defs Let_def)

lemmas loader_defs =
  createStylesLoader_def createLanguageLoader_def createImagesLoader_def
  createFontsLoader_def createWasmLoader_def createUnityLoader_def

lemma re_match_str:
  "re_match False (str l) s = (if take (length l) s = l then [drop (length l) s] else [])"
proof (induction l arbitrary: s)
  case Nil
  show ?case by simp
next
  case (Cons c l)
  show ?case
    by (cases s) (auto simp: Cons.IH char_eq_def)
qed

lemma re_search_here: "re_match ic r s \<noteq> [] \<Longrightarrow> re_search ic r s"
  by (cases s) simp_all

lemma re_search_str_intro: "re_search False (str l) (before @ l @ after)"
proof (induction before)
  case Nil
  show ?case by (rule re_search_here) (simp add: re_match_str)
next
  case (Cons x before)
  then show ?case by simp
qed

lemma re_search_str_elim:
  "re_search False (str l) s \<Longrightarrow> \<exists>before after. s = before @ l @ after"
proof (induction s)
  case Nil
  then have "l = []" by (simp add: re_match_str split: if_splits)
  then show ?case by simp
next
  case (Cons x xs)
  show ?case
  proof (cases "re_match False (str l) (x # xs) = []")
    case True
    with Cons.prems have "re_search False (str l) xs" by simp
    then obtain before after where "xs = before @ l @ after"
      using Cons.IH by blast
    then have "x # xs = (x # before) @ l @ after" by simp
    then show ?thesis by blast
  next
    case False
    then have "take (length l) (x # xs) = l"
      by (simp add: re_match_str split: if_splits)
    then have "x # xs = [] @ l @ drop (length l) (x # xs)"
      by (metis append_Nil append_take_drop_id)
    then show ?thesis by blast
  qed
qed

lemma re_search_str:
  "re_search False (str l) s \<longleftrightarrow> (\<exists>before after. s = before @ l @ after)"
  using re_search_str_intro re_search_str_elim by blast

lemma loadSettings_dependenciesFiles:
  "dependenciesFiles (patterns (fst (loadSettings path_join p env argv out))) =
     RegExp (str ''node_modules'') False"
  by (simp add: loadSettings_def Let_def del: str.simps seq.simps alts.simps)

lemma oneOf_claim_first:
  "oneOf_claim rules resource = Some rule \<Longrightarrow>
   \<exists>before after. rules = before @ rule # after \<and> rule_applies rule resource \<and>
     (\<forall>q \<in> set before. \<not> rule_applies q resource)"
proof (induction rules)
  case Nil
  then show ?case by simp
next
  case (Cons r rules)
  show ?case
  proof (cases "rule_applies r resource")
    case True
    with Cons.prems have "rule = r" by simp
    with True have "r # rules = [] @ rule # rules \<and> rule_applies rule resource \<and>
        (\<forall>q \<in> set []. \<not> rule_applies q resource)"
      by simp
    then show ?thesis by blast
  next
    case False
    with Cons.prems have "oneOf_claim rules resource = Some rule" by simp
    then obtain before after where
      "rules = before @ rule # after" "rule_applies rule resource"
      "\<forall>q \<in> set before. \<not> rule_applies q resource"
      using Cons.IH by blast
    with False have "r # rules = (r # before) @ rule # after \<and> rule_applies rule resource \<and>
        (\<forall>q \<in> set (r # before). \<not> rule_applies q resource)"
      by simp
    then show ?thesis by blast
  qed
qed

lemma module_rules:
  "js_get (js_get (fst (buildWebpackConfiguration s out)) ''module'') ''rules'' =
     JArr ((if mode s = BuildMode_development then createSourceMapsLoader s else []) @
           [JObj [(''oneOf'', JArr (createStylesLoader s @ createLanguageLoader s @
              createImagesLoader s @ createFontsLoader s @ createWasmLoader s @
              createUnityLoader s))]])"
  by (simp add: aggregate_sections section_defs Let_def)

lemmas run_defs =
  createHtmlBundleInjectionPlugin_run_def createEnvironmentVariablesPlugin_run_def
  createFileCopyPlugin_run_def configurePlugins_run_def

lemma configurePlugins_run_value:
  assumes f: "\<And>c args x. fst (new c args x) = f c args"
  shows "fst (configurePlugins_run new s x) =
     [(''plugins'', JArr (filter truthy
        [f ''Dotenv'' [JObj [(''path'', JStr (''./.env.'' @ mode s)),
                             (''systemvars'', JBool True)]],
         f ''HtmlWebpackPlugin'' [JObj [(''template'', JStr (indexHtmlTemplate (paths s)))]],
         case copyExistingFiles s of
           None \<Rightarrow> JUndefined
         | Some instructions \<Rightarrow>
             if length instructions = 0 then JUndefined
             else f ''CopyPlugin''
                    [JObj [(''patterns'', JArr (map CopyInstruction_jv instructions))]]]))]"
  by (simp add: run_defs split_beta Let_def f split: option.splits)

lemma run_sections:
  "fst (buildWebpackConfiguration_run new s w) =
     JObj (configureBuildMode s @ configureAppEntryPoints s @ configureBundleOutput s @
       configureNodeJsBasicPolyfills s @
       [(''resolve'', JObj (configureSupportedFileExtensions s @ configureNodeJsFallbacks s))] @
       configureLoaders s @ configureSourceMapsGeneration s @ configureDevelopmentServer s @
       [(''plugins'', prop_of_plugins)] @ configureLogLevel s)"
  if "fst (configurePlugins_run new s (snd w)) = [(''plugins'', prop_of_plugins)]"
  using that
  by (simp add: buildWebpackConfiguration_run_def section_defs Let_def split_beta)

lemma split_path_infix:
  "x \<in> set (split_path name s) \<Longrightarrow> \<exists>before after. name @ s = before @ x @ after"
proof (induction s arbitrary: name)
  case Nil
  then have "name @ [] = [] @ x @ []" by simp
  then show ?case by blast
next
  case (Cons c cs)
  show ?case
  proof (cases "c = CHR ''/''")
    case True
    with Cons.prems have "x = name \<or> x \<in> set (split_path [] cs)" by simp
    then show ?thesis
    proof
      assume "x = name"
      then have "name @ c # cs = [] @ x @ (c # cs)" by simp
      then show ?thesis by blast
    next
      assume "x \<in> set (split_path [] cs)"
      then obtain before after where "[] @ cs = before @ x @ after"
        using Cons.IH by blast
      then have "name @ c # cs = (name @ c # before) @ x @ after" by simp
      then show ?thesis by blast
    qed
  next
    case False
    with Cons.prems have "x \<in> set (split_path (name @ [c]) cs)" by simp
    then obtain before after where "(name @ [c]) @ cs = before @ x @ after"
      using Cons.IH by blast
    then have "name @ c # cs = before @ x @ after" by simp
    then show ?thesis by blast
  qed
qed

lemma segments_infix:
  "x \<in> set (segments resource) \<Longrightarrow> \<exists>before after. resource = before @ x @ after"
  using split_path_infix [of x "[]" resource] by (simp add: segments_def)

section \<open>The settings loader\<close>

text \<open>
  C1. The loader takes the build mode from \<^verbatim>\<open>NODE_ENV\<close> when that variable is set to a
  non-empty string, whatever the arguments say; otherwise from the \<open>mode\<close> argument when the
  arguments hold a truthy one; otherwise from the default. With no variable and no argument
  the mode is development. The mode is production exactly when the input so chosen is the
  string \<^verbatim>\<open>production\<close>; any other value, of any type, gives development. The loader has
  no failing branch: for every arguments object it returns a settings record.
\<close>

theorem loadSettings_mode_resolution:
  "(let m = mode (fst (loadSettings path_join p env argv out)) in
    (NODE_ENV p = Some e \<and> e \<noteq> [] \<longrightarrow>
       m = (if e = ''production'' then BuildMode_production else BuildMode_development)) \<and>
    ((NODE_ENV p = None \<or> NODE_ENV p = Some []) \<and> truthy (obj_get argv ''mode'') \<longrightarrow>
       m = (if obj_get argv ''mode'' = JStr ''production'' then BuildMode_production
            else BuildMode_development)) \<and>
    ((NODE_ENV p = None \<or> NODE_ENV p = Some []) \<and> \<not> truthy (obj_get argv ''mode'') \<longrightarrow>
       m = BuildMode_development) \<and>
    (NODE_ENV p = None \<and> ''mode'' \<notin> fst ` set argv \<longrightarrow> m = BuildMode_development) \<and>
    (m \<noteq> BuildMode_production \<longrightarrow> m = BuildMode_development))"
proof -
  let ?m = "mode (fst (loadSettings path_join p env argv out))"
  have c1: "NODE_ENV p = Some e \<and> e \<noteq> [] \<longrightarrow>
       ?m = (if e = ''production'' then BuildMode_production else BuildMode_development)"
    by (simp add: loadSettings_mode environment_set)
  have c2: "(NODE_ENV p = None \<or> NODE_ENV p = Some []) \<and> truthy (obj_get argv ''mode'') \<longrightarrow>
       ?m = (if obj_get argv ''mode'' = JStr ''production'' then BuildMode_production
            else BuildMode_development)"
    by (simp add: loadSettings_mode environment_unset)
  have c3: "(NODE_ENV p = None \<or> NODE_ENV p = Some []) \<and> \<not> truthy (obj_get argv ''mode'') \<longrightarrow>
       ?m = BuildMode_development"
    by (simp add: loadSettings_mode environment_unset)
  have c4: "NODE_ENV p = None \<and> ''mode'' \<notin> fst ` set argv \<longrightarrow> ?m = BuildMode_development"
    by (simp add: loadSettings_mode environment_unset obj_get_absent)
  have c5: "?m \<noteq> BuildMode_production \<longrightarrow> ?m = BuildMode_development"
    by (simp add: loadSettings_mode)
  from c1 c2 c3 c4 c5 show ?thesis
    unfolding Let_def by blast
qed

theorem loadSettings_mode_resolution_witness:
  "mode (fst (loadSettings (\<lambda>a b. a @ ''/'' @ b) \<lparr>NODE_ENV = Some ''staging'', cwd = ''/app''\<rparr>
       JUndefined [(''mode'', JStr ''production'')] [])) = ''development'' \<and>
   mode (fst (loadSettings (\<lambda>a b. a @ ''/'' @ b) \<lparr>NODE_ENV = None, cwd = ''/app''\<rparr>
       JUndefined [(''mode'', JStr ''production'')] [])) = ''production'' \<and>
   mode (fst (loadSettings (\<lambda>a b. a @ ''/'' @ b) \<lparr>NODE_ENV = None, cwd = ''/app''\<rparr>
       JUndefined [(''mode'', JNum 7)] [])) = ''development'' \<and>
   mode (fst (loadSettings (\<lambda>a b. a @ ''/'' @ b) \<lparr>NODE_ENV = None, cwd = ''/app''\<rparr>
       JUndefined [] [])) = ''development''"
proof -
  note t = loadSettings_mode_resolution [unfolded Let_def]
  have w1: "mode (fst (loadSettings (\<lambda>a b. a @ ''/'' @ b)
       \<lparr>NODE_ENV = Some ''staging'', cwd = ''/app''\<rparr>
       JUndefined [(''mode'', JStr ''production'')] [])) = ''development''"
    using t [of "\<lparr>NODE_ENV = Some ''staging'', cwd = ''/app''\<rparr>" "''staging''" _
        _ "[(''mode'', JStr ''production'')]", THEN conjunct1]
    by (simp add: BuildMode_development_def)
  have w2: "mode (fst (loadSettings (\<lambda>a b. a @ ''/'' @ b) \<lparr>NODE_ENV = None, cwd = ''/app''\<rparr>
       JUndefined [(''mode'', JStr ''production'')] [])) = ''production''"
    using t [of "\<lparr>NODE_ENV = None, cwd = ''/app''\<rparr>" _ _
        _ "[(''mode'', JStr ''production'')]", THEN conjunct2, THEN conjunct1]
    by (simp add: BuildMode_production_def)
  have w3: "mode (fst (loadSettings (\<lambda>a b. a @ ''/'' @ b) \<lparr>NODE_ENV = None, cwd = ''/app''\<rparr>
       JUndefined [(''mode'', JNum 7)] [])) = ''development''"
    using t [of "\<lparr>NODE_ENV = None, cwd = ''/app''\<rparr>" _ _
        _ "[(''mode'', JNum 7)]", THEN conjunct2, THEN conjunct1]
    by (simp add: BuildMode_development_def)
  have w4: "mode (fst (loadSettings (\<lambda>a b. a @ ''/'' @ b) \<lparr>NODE_ENV = None, cwd = ''/app''\<rparr>
       JUndefined [] [])) = ''development''"
    using t [of "\<lparr>NODE_ENV = None, cwd = ''/app''\<rparr>" _ _
        _ "[]", THEN conjunct2, THEN conjunct2, THEN conjunct2, THEN conjunct1]
    by (simp add: BuildMode_development_def)
  from w1 w2 w3 w4 show ?thesis by blast
qed

section \<open>Development server and source maps\<close>

text \<open>
  C2. When the mode is development the configuration carries a \<open>devServer\<close> section made
  of the static content root of the settings, compression, port 9000, https, automatic
  opening of the browser, writing to disk and the history-API fallback, and its \<open>devtool\<close>
  is the non-empty string \<^verbatim>\<open>inline-cheap-module-source-map\<close>. When the mode is production
  there is no such section (the property \<open>devServer\<close> reads as \<^verbatim>\<open>undefined\<close>, the value the
  builder writes for it) and \<open>devtool\<close> is \<^verbatim>\<open>false\<close>.
\<close>

theorem development_server_and_source_maps:
  "(mode s = BuildMode_development \<longrightarrow>
      js_get (fst (buildWebpackConfiguration s out)) ''devServer'' =
        JObj [(''contentBase'', JStr (devServerContentPath (paths s))),
              (''compress'', JBool True),
              (''port'', JNum 9000),
              (''https'', JBool True),
              (''open'', JBool True),
              (''writeToDisk'', JBool True),
              (''historyApiFallback'', JBool True)] \<and>
      js_get (fst (buildWebpackConfiguration s out)) ''devtool'' =
        JStr ''inline-cheap-module-source-map'') \<and>
   (mode s = BuildMode_production \<longrightarrow>
      js_get (fst (buildWebpackConfiguration s out)) ''devServer'' = JUndefined \<and>
      js_get (fst (buildWebpackConfiguration s out)) ''devtool'' = JBool False)"
  by (simp add: aggregate_sections section_defs Let_def
      BuildMode_development_def BuildMode_production_def)

theorem development_server_and_source_maps_witness:
  "mode (fst (loadSettings (\<lambda>a b. a @ ''/'' @ b) \<lparr>NODE_ENV = None, cwd = ''/app''\<rparr>
       JUndefined [] [])) = BuildMode_development \<and>
   js_get (js_get (fst (getBasicTypeScriptReactWebAppConfiguration (\<lambda>a b. a @ ''/'' @ b)
       \<lparr>NODE_ENV = None, cwd = ''/app''\<rparr> JUndefined [] [])) ''devServer'') ''port'' = JNum 9000 \<and>
   js_get (js_get (fst (getBasicTypeScriptReactWebAppConfiguration (\<lambda>a b. a @ ''/'' @ b)
       \<lparr>NODE_ENV = None, cwd = ''/app''\<rparr> JUndefined [] [])) ''devServer'') ''contentBase'' =
     JStr ''/app/dist'' \<and>
   mode (fst (loadSettings (\<lambda>a b. a @ ''/'' @ b) \<lparr>NODE_ENV = Some ''production'', cwd = ''/app''\<rparr>
       JUndefined [] [])) = BuildMode_production \<and>
   js_get (fst (getBasicTypeScriptReactWebAppConfiguration (\<lambda>a b. a @ ''/'' @ b)
       \<lparr>NODE_ENV = Some ''production'', cwd = ''/app''\<rparr> JUndefined [] [])) ''devServer'' =
     JUndefined"
proof -
  let ?j = "\<lambda>a b. a @ ''/'' @ b"
  let ?d = "loadSettings ?j \<lparr>NODE_ENV = None, cwd = ''/app''\<rparr> JUndefined [] []"
  let ?p = "loadSettings ?j \<lparr>NODE_ENV = Some ''production'', cwd = ''/app''\<rparr> JUndefined [] []"
  have md: "mode (fst ?d) = BuildMode_development"
    by (simp add: loadSettings_mode js_or_def option_jv_def)
  have mp: "mode (fst ?p) = BuildMode_production"
    by (simp add: loadSettings_mode js_or_def option_jv_def)
  have pd: "devServerContentPath (paths (fst ?d)) = ''/app/dist''"
    by (simp add: loadSettings_def Let_def del: str.simps seq.simps alts.simps)
  note t = development_server_and_source_maps
  have d: "js_get (fst (buildWebpackConfiguration (fst ?d) (snd ?d))) ''devServer'' =
        JObj [(''contentBase'', JStr ''/app/dist''),
              (''compress'', JBool True),
              (''port'', JNum 9000),
              (''https'', JBool True),
              (''open'', JBool True),
              (''writeToDisk'', JBool True),
              (''historyApiFallback'', JBool True)]"
    using t [of "fst ?d" "snd ?d", THEN conjunct1] md pd by simp
  have p: "js_get (fst (buildWebpackConfiguration (fst ?p) (snd ?p))) ''devServer'' = JUndefined"
    using t [of "fst ?p" "snd ?p", THEN conjunct2] mp by simp
  show ?thesis
    using md mp d p
    by (simp add: getBasicTypeScriptReactWebAppConfiguration_def split_beta)
qed

section \<open>Plugins of the configuration\<close>

text \<open>
  C3. When the copy instructions are unset or empty the copy factory returns
  \<^verbatim>\<open>undefined\<close>, the filter drops it, and the plugin list is exactly the environment
  plugin and the HTML plugin. When there is at least one instruction the list has those two
  and the copy plugin, built from the instructions, as its third entry.
\<close>

theorem plugin_list_length:
  "(copyExistingFiles s = None \<or> copyExistingFiles s = Some [] \<longrightarrow>
      js_get (fst (buildWebpackConfiguration s out)) ''plugins'' =
        JArr [createEnvironmentVariablesPlugin s, createHtmlBundleInjectionPlugin s] \<and>
      createFileCopyPlugin s = JUndefined) \<and>
   (copyExistingFiles s = Some (c # cs) \<longrightarrow>
      js_get (fst (buildWebpackConfiguration s out)) ''plugins'' =
        JArr [createEnvironmentVariablesPlugin s, createHtmlBundleInjectionPlugin s,
              JNew ''CopyPlugin''
                [JObj [(''patterns'', JArr (map CopyInstruction_jv (c # cs)))]]]) \<and>
   createEnvironmentVariablesPlugin s =
     JNew ''Dotenv'' [JObj [(''path'', JStr (''./.env.'' @ mode s)),
                            (''systemvars'', JBool True)]] \<and>
   createHtmlBundleInjectionPlugin s =
     JNew ''HtmlWebpackPlugin'' [JObj [(''template'', JStr (indexHtmlTemplate (paths s)))]]"
  by (auto simp: plugins_section plugin_defs)

theorem plugin_list_length_witness:
  "length (elements (js_get (fst (getBasicTypeScriptReactWebAppConfiguration
       (\<lambda>a b. a @ ''/'' @ b) \<lparr>NODE_ENV = None, cwd = ''/app''\<rparr> JUndefined [] []))
       ''plugins'')) = 2 \<and>
   length (elements (js_get (fst (buildWebpackConfiguration
       ((fst (loadSettings (\<lambda>a b. a @ ''/'' @ b) \<lparr>NODE_ENV = None, cwd = ''/app''\<rparr>
           JUndefined [] []))
          \<lparr>copyExistingFiles := Some [\<lparr>to = ''assets'', from = ''public/*''\<rparr>]\<rparr>) []))
       ''plugins'')) = 3"
proof -
  let ?d = "loadSettings (\<lambda>a b. a @ ''/'' @ b) \<lparr>NODE_ENV = None, cwd = ''/app''\<rparr> JUndefined [] []"
  let ?c = "(fst ?d)\<lparr>copyExistingFiles := Some [\<lparr>to = ''assets'', from = ''public/*''\<rparr>]\<rparr>"
  have n: "copyExistingFiles (fst ?d) = None"
    by (simp add: loadSettings_def Let_def del: str.simps seq.simps alts.simps)
  note t = plugin_list_length
  have a: "length (elements (js_get (fst (buildWebpackConfiguration (fst ?d) (snd ?d)))
       ''plugins'')) = 2"
    using t [of "fst ?d" "snd ?d", THEN conjunct1] n by simp
  have b: "length (elements (js_get (fst (buildWebpackConfiguration ?c [])) ''plugins'')) = 3"
    using t [of ?c "[]" "\<lparr>to = ''assets'', from = ''public/*''\<rparr>" "[]",
        THEN conjunct2, THEN conjunct1]
    by simp
  show ?thesis
    using a b by (simp add: getBasicTypeScriptReactWebAppConfiguration_def split_beta)
qed

section \<open>Module rules\<close>

text \<open>
  C4. The factory of the source-map rule makes one rule. That rule is among the module
  rules exactly when the mode is development; it is then the first of two entries, the
  second being the \<open>oneOf\<close> rule, and it is not one of the rules inside \<open>oneOf\<close>. The
  rules of the six other factories are all inside \<open>oneOf\<close>, in the order styles, language,
  images, fonts, wasm, unity, and \<open>oneOf\<close> is the only other entry. Under first-match
  dispatch a resource claimed inside \<open>oneOf\<close> is claimed by a rule that applies to it and
  that no applying rule precedes.
\<close>

theorem source_map_rule_placement:
  "(let rules = elements
          (js_get (js_get (fst (buildWebpackConfiguration s out)) ''module'') ''rules'');
        exclusive = createStylesLoader s @ createLanguageLoader s @ createImagesLoader s @
          createFontsLoader s @ createWasmLoader s @ createUnityLoader s
    in (\<exists>r. createSourceMapsLoader s = [r] \<and>
          (r \<in> set rules \<longleftrightarrow> mode s = BuildMode_development) \<and>
          (mode s = BuildMode_development \<longrightarrow> rules = [r, JObj [(''oneOf'', JArr exclusive)]]) \<and>
          (mode s \<noteq> BuildMode_development \<longrightarrow> rules = [JObj [(''oneOf'', JArr exclusive)]]) \<and>
          r \<notin> set exclusive) \<and>
       (\<forall>resource rule. oneOf_claim exclusive resource = Some rule \<longrightarrow>
          (\<exists>before after. exclusive = before @ rule # after \<and> rule_applies rule resource \<and>
             (\<forall>q \<in> set before. \<not> rule_applies q resource))))"
proof -
  let ?exclusive = "createStylesLoader s @ createLanguageLoader s @ createImagesLoader s @
          createFontsLoader s @ createWasmLoader s @ createUnityLoader s"
  let ?rules = "elements
          (js_get (js_get (fst (buildWebpackConfiguration s out)) ''module'') ''rules'')"
  have rules: "?rules = (if mode s = BuildMode_development then createSourceMapsLoader s else [])
      @ [JObj [(''oneOf'', JArr ?exclusive)]]"
    by (simp add: module_rules)
  have a: "\<exists>r. createSourceMapsLoader s = [r] \<and>
          (r \<in> set ?rules \<longleftrightarrow> mode s = BuildMode_development) \<and>
          (mode s = BuildMode_development \<longrightarrow> ?rules = [r, JObj [(''oneOf'', JArr ?exclusive)]]) \<and>
          (mode s \<noteq> BuildMode_development \<longrightarrow> ?rules = [JObj [(''oneOf'', JArr ?exclusive)]]) \<and>
          r \<notin> set ?exclusive"
    unfolding rules by (simp add: createSourceMapsLoader_def loader_defs)
  have b: "\<forall>resource rule. oneOf_claim ?exclusive resource = Some rule \<longrightarrow>
          (\<exists>before after. ?exclusive = before @ rule # after \<and> rule_applies rule resource \<and>
             (\<forall>q \<in> set before. \<not> rule_applies q resource))"
    using oneOf_claim_first by blast
  from a b show ?thesis unfolding Let_def by blast
qed

theorem source_map_rule_placement_witness:
  "mode (fst (loadSettings (\<lambda>a b. a @ ''/'' @ b) \<lparr>NODE_ENV = None, cwd = ''/app''\<rparr>
       JUndefined [] [])) = BuildMode_development \<and>
   createSourceMapsLoader (fst (loadSettings (\<lambda>a b. a @ ''/'' @ b)
       \<lparr>NODE_ENV = None, cwd = ''/app''\<rparr> JUndefined [] [])) =
     [js_at (js_get (js_get (fst (getBasicTypeScriptReactWebAppConfiguration
        (\<lambda>a b. a @ ''/'' @ b) \<lparr>NODE_ENV = None, cwd = ''/app''\<rparr> JUndefined [] []))
        ''module'') ''rules'') 0] \<and>
   length (elements (js_get (js_get (fst (getBasicTypeScriptReactWebAppConfiguration
        (\<lambda>a b. a @ ''/'' @ b) \<lparr>NODE_ENV = None, cwd = ''/app''\<rparr> JUndefined [] []))
        ''module'') ''rules'')) = 2 \<and>
   mode (fst (loadSettings (\<lambda>a b. a @ ''/'' @ b)
       \<lparr>NODE_ENV = Some ''production'', cwd = ''/app''\<rparr> JUndefined [] [])) \<noteq>
     BuildMode_development \<and>
   length (elements (js_get (js_get (fst (getBasicTypeScriptReactWebAppConfiguration
        (\<lambda>a b. a @ ''/'' @ b) \<lparr>NODE_ENV = Some ''production'', cwd = ''/app''\<rparr>
        JUndefined [] [])) ''module'') ''rules'')) = 1 \<and>
   (\<exists>rule. oneOf_claim
        (elements (js_get (js_at (js_get (js_get (fst
           (getBasicTypeScriptReactWebAppConfiguration (\<lambda>a b. a @ ''/'' @ b)
              \<lparr>NODE_ENV = None, cwd = ''/app''\<rparr> JUndefined [] []))
           ''module'') ''rules'') 1) ''oneOf''))
        ''/app/src/index.tsx'' = Some rule \<and>
      rule_applies rule ''/app/src/index.tsx'' \<and>
      js_get rule ''test'' = JRegExp (typescriptFiles (patterns (fst (loadSettings
        (\<lambda>a b. a @ ''/'' @ b) \<lparr>NODE_ENV = None, cwd = ''/app''\<rparr> JUndefined [] [])))))"
proof -
  let ?j = "\<lambda>a b. a @ ''/'' @ b"
  let ?d = "loadSettings ?j \<lparr>NODE_ENV = None, cwd = ''/app''\<rparr> JUndefined [] []"
  let ?p = "loadSettings ?j \<lparr>NODE_ENV = Some ''production'', cwd = ''/app''\<rparr> JUndefined [] []"
  let ?ex = "\<lambda>s. createStylesLoader s @ createLanguageLoader s @ createImagesLoader s @
          createFontsLoader s @ createWasmLoader s @ createUnityLoader s"
  let ?rules = "\<lambda>l. elements (js_get (js_get (fst (buildWebpackConfiguration (fst l) (snd l)))
      ''module'') ''rules'')"
  note t = source_map_rule_placement [unfolded Let_def]
  have md: "mode (fst ?d) = BuildMode_development"
    by (simp add: loadSettings_mode js_or_def option_jv_def)
  have mp: "mode (fst ?p) \<noteq> BuildMode_development"
    by (simp add: loadSettings_mode js_or_def option_jv_def
        BuildMode_development_def BuildMode_production_def)
  from t [of "fst ?d" "snd ?d", THEN conjunct1] md obtain r where
    r: "createSourceMapsLoader (fst ?d) = [r]"
      "?rules ?d = [r, JObj [(''oneOf'', JArr (?ex (fst ?d)))]]"
    by blast
  from t [of "fst ?p" "snd ?p", THEN conjunct1] mp have
    p: "?rules ?p = [JObj [(''oneOf'', JArr (?ex (fst ?p)))]]"
    by blast
  obtain xs where xs: "js_get (js_get (fst (buildWebpackConfiguration (fst ?d) (snd ?d)))
      ''module'') ''rules'' = JArr xs"
    by (simp add: module_rules)
  with r have arr: "js_get (js_get (fst (buildWebpackConfiguration (fst ?d) (snd ?d)))
      ''module'') ''rules'' = JArr [r, JObj [(''oneOf'', JArr (?ex (fst ?d)))]]"
    by simp
  have ts: "js_get (createLanguageLoader (fst ?d) ! 1) ''test'' =
      JRegExp (typescriptFiles (patterns (fst ?d)))"
    by (simp add: createLanguageLoader_def)
  have claim: "oneOf_claim (?ex (fst ?d)) ''/app/src/index.tsx'' =
      Some (createLanguageLoader (fst ?d) ! 1)"
    by (simp add: loader_defs loadSettings_def Let_def rule_applies_def char_eq_def
        canonicalize_def)
  with t [of "fst ?d" "snd ?d", THEN conjunct2]
  have applies: "rule_applies (createLanguageLoader (fst ?d) ! 1) ''/app/src/index.tsx''"
    by blast
  have c1: "createSourceMapsLoader (fst ?d) =
      [js_at (js_get (js_get (fst (buildWebpackConfiguration (fst ?d) (snd ?d))) ''module'')
         ''rules'') 0]"
    unfolding arr using r(1) by simp
  have c2: "length (?rules ?d) = 2"
    using r(2) by simp
  have c3: "length (?rules ?p) = 1"
    using p by simp
  have c4: "elements (js_get (js_at (js_get (js_get (fst (buildWebpackConfiguration (fst ?d)
      (snd ?d))) ''module'') ''rules'') 1) ''oneOf'') = ?ex (fst ?d)"
    unfolding arr by simp
  have c5: "\<exists>rule. oneOf_claim
        (elements (js_get (js_at (js_get (js_get (fst (buildWebpackConfiguration (fst ?d)
           (snd ?d))) ''module'') ''rules'') 1) ''oneOf''))
        ''/app/src/index.tsx'' = Some rule \<and>
      rule_applies rule ''/app/src/index.tsx'' \<and>
      js_get rule ''test'' = JRegExp (typescriptFiles (patterns (fst ?d)))"
    unfolding c4 using claim applies ts by blast
  have unfold: "getBasicTypeScriptReactWebAppConfiguration ?j q e a out =
      buildWebpackConfiguration (fst (loadSettings ?j q e a out)) (snd (loadSettings ?j q e a out))"
    for q e a out
    by (simp add: getBasicTypeScriptReactWebAppConfiguration_def split_beta)
  show ?thesis
    unfolding unfold using md mp c1 c2 c3 c5 by blast
qed

text \<open>
  C5. The stylesheet rule is the first rule inside \<open>oneOf\<close>. In it, the \<open>purge.enabled\<close>
  flag of the \<^verbatim>\<open>tailwindcss\<close> plugin of \<^verbatim>\<open>postcss-loader\<close> is \<^verbatim>\<open>true\<close> when the mode
  is production and \<^verbatim>\<open>false\<close> for every other mode.
\<close>

theorem purge_flag:
  "createStylesLoader s =
     [js_at (js_get (js_at (js_get (js_get (fst (buildWebpackConfiguration s out)) ''module'')
        ''rules'') (if mode s = BuildMode_development then 1 else 0)) ''oneOf'') 0] \<and>
   js_get (js_get (js_at (js_at (js_get (js_get (js_get (js_at (js_get
       (js_at (js_get (js_at (js_get (js_get (fst (buildWebpackConfiguration s out)) ''module'')
          ''rules'') (if mode s = BuildMode_development then 1 else 0)) ''oneOf'') 0)
       ''use'') 2) ''options'') ''postcssOptions'') ''plugins'') 2) 1) ''purge'') ''enabled'' =
     JBool (mode s = BuildMode_production)"
  by (simp add: aggregate_sections section_defs Let_def
      createStylesLoader_def createSourceMapsLoader_def)

theorem purge_flag_witness:
  "js_get (js_get (js_at (js_at (js_get (js_get (js_get (js_at (js_get
       (js_at (js_get (js_at (js_get (js_get (fst (getBasicTypeScriptReactWebAppConfiguration
          (\<lambda>a b. a @ ''/'' @ b) \<lparr>NODE_ENV = Some ''production'', cwd = ''/app''\<rparr> JUndefined [] []))
          ''module'') ''rules'') 0) ''oneOf'') 0)
       ''use'') 2) ''options'') ''postcssOptions'') ''plugins'') 2) 1) ''purge'') ''enabled'' =
     JBool True \<and>
   js_get (js_get (js_at (js_at (js_get (js_get (js_get (js_at (js_get
       (js_at (js_get (js_at (js_get (js_get (fst (getBasicTypeScriptReactWebAppConfiguration
          (\<lambda>a b. a @ ''/'' @ b) \<lparr>NODE_ENV = None, cwd = ''/app''\<rparr> JUndefined [] []))
          ''module'') ''rules'') 1) ''oneOf'') 0)
       ''use'') 2) ''options'') ''postcssOptions'') ''plugins'') 2) 1) ''purge'') ''enabled'' =
     JBool False"
proof -
  let ?j = "\<lambda>a b. a @ ''/'' @ b"
  let ?d = "loadSettings ?j \<lparr>NODE_ENV = None, cwd = ''/app''\<rparr> JUndefined [] []"
  let ?p = "loadSettings ?j \<lparr>NODE_ENV = Some ''production'', cwd = ''/app''\<rparr> JUndefined [] []"
  have md: "mode (fst ?d) = ''development''"
    by (simp add: loadSettings_mode js_or_def option_jv_def
        BuildMode_development_def)
  have mp: "mode (fst ?p) = ''production''"
    by (simp add: loadSettings_mode js_or_def option_jv_def
        BuildMode_production_def)
  show ?thesis
    using purge_flag [of "fst ?d" "snd ?d", THEN conjunct2]
      purge_flag [of "fst ?p" "snd ?p", THEN conjunct2] md mp
    by (simp add: getBasicTypeScriptReactWebAppConfiguration_def split_beta
        BuildMode_development_def BuildMode_production_def)
qed

section \<open>The merge\<close>

text \<open>
  C6. The keys written by the eleven section builders are pairwise different, and none of
  them is \<open>resolve\<close>, the key the aggregator writes itself. So no write of the merge lands
  on a key written before: the configuration is the sections one after the other, each with
  the value its builder gave it, and \<open>resolve\<close> holds the extensions followed by the
  fallbacks.
\<close>

theorem sections_have_disjoint_keys:
  "distinct (map fst
     (configureBuildMode s @ configureAppEntryPoints s @ configureBundleOutput s @
      configureNodeJsBasicPolyfills s @ configureSupportedFileExtensions s @
      configureNodeJsFallbacks s @ configureLoaders s @ configureSourceMapsGeneration s @
      configureDevelopmentServer s @ configurePlugins s @ configureLogLevel s)) \<and>
   ''resolve'' \<notin> fst ` set
     (configureBuildMode s @ configureAppEntryPoints s @ configureBundleOutput s @
      configureNodeJsBasicPolyfills s @ configureLoaders s @ configureSourceMapsGeneration s @
      configureDevelopmentServer s @ configurePlugins s @ configureLogLevel s) \<and>
   fst (buildWebpackConfiguration s out) =
     JObj (configureBuildMode s @ configureAppEntryPoints s @ configureBundleOutput s @
           configureNodeJsBasicPolyfills s @
           [(''resolve'',
             JObj (configureSupportedFileExtensions s @ configureNodeJsFallbacks s))] @
           configureLoaders s @ configureSourceMapsGeneration s @
           configureDevelopmentServer s @ configurePlugins s @ configureLogLevel s)"
proof (intro conjI)
  show "fst (buildWebpackConfiguration s out) =
     JObj (configureBuildMode s @ configureAppEntryPoints s @ configureBundleOutput s @
           configureNodeJsBasicPolyfills s @
           [(''resolve'',
             JObj (configureSupportedFileExtensions s @ configureNodeJsFallbacks s))] @
           configureLoaders s @ configureSourceMapsGeneration s @
           configureDevelopmentServer s @ configurePlugins s @ configureLogLevel s)"
    by (simp add: aggregate_sections)
qed (simp_all add: section_defs Let_def)

text \<open>
  C7. Two invocations of the aggregator on the same settings record return structurally
  equal configurations, whatever the console holds and whatever state the plugin packages
  are in, and so also when the second invocation runs in the world the first one left
  behind. The aggregator reads nothing but the record: the one thing taken from outside is
  that a constructor of the external packages builds its instance from its arguments. With
  instances kept as class and arguments, the configuration is the one of
  \<open>buildWebpackConfiguration\<close>.
\<close>

theorem aggregator_is_deterministic:
  "((\<forall>c args x x'. fst (new c args x) = fst (new c args x')) \<longrightarrow>
      fst (buildWebpackConfiguration_run new s w) =
        fst (buildWebpackConfiguration_run new s w') \<and>
      fst (buildWebpackConfiguration_run new s (snd (buildWebpackConfiguration_run new s w))) =
        fst (buildWebpackConfiguration_run new s w)) \<and>
   fst (buildWebpackConfiguration_run (\<lambda>c args x. (JNew c args, x)) s (out, x0)) =
     fst (buildWebpackConfiguration s out)"
proof (intro conjI impI)
  assume pure: "\<forall>c args x x'. fst (new c args x) = fst (new c args x')"
  define f where "f c args = fst (new c args undefined)" for c args
  have f: "fst (new c args x) = f c args" for c args x
    unfolding f_def using pure by blast
  have same: "fst (buildWebpackConfiguration_run new s u) =
      fst (buildWebpackConfiguration_run new s v)" for u v
    by (simp add: run_sections [OF configurePlugins_run_value [of new f, OF f]])
  show "fst (buildWebpackConfiguration_run new s w) =
      fst (buildWebpackConfiguration_run new s w')"
    by (rule same)
  show "fst (buildWebpackConfiguration_run new s (snd (buildWebpackConfiguration_run new s w))) =
      fst (buildWebpackConfiguration_run new s w)"
    by (rule same)
next
  have sym: "fst ((\<lambda>c args x. (JNew c args, x)) c args (x::'b)) = JNew c args" for c args x
    by simp
  show "fst (buildWebpackConfiguration_run (\<lambda>c args x. (JNew c args, x)) s (out, x0)) =
     fst (buildWebpackConfiguration s out)"
    unfolding run_sections [OF configurePlugins_run_value
        [of "\<lambda>c args x. (JNew c args, x)" JNew, OF sym]]
    by (simp add: aggregate_sections configurePlugins_def plugin_defs)
qed

theorem aggregator_is_deterministic_witness:
  "(\<forall>c args x x'. fst ((\<lambda>c args n. (JNew c args, Suc n)) c args (x::nat)) =
       fst ((\<lambda>c args n. (JNew c args, Suc n)) c args x')) \<and>
   snd (snd (buildWebpackConfiguration_run (\<lambda>c args n. (JNew c args, Suc n))
       (fst (loadSettings (\<lambda>a b. a @ ''/'' @ b) \<lparr>NODE_ENV = None, cwd = ''/app''\<rparr>
          JUndefined [] [])) ([], 0::nat))) = 2 \<and>
   fst (buildWebpackConfiguration_run (\<lambda>c args n. (JNew c args, Suc n))
       (fst (loadSettings (\<lambda>a b. a @ ''/'' @ b) \<lparr>NODE_ENV = None, cwd = ''/app''\<rparr>
          JUndefined [] []))
       (snd (buildWebpackConfiguration_run (\<lambda>c args n. (JNew c args, Suc n))
          (fst (loadSettings (\<lambda>a b. a @ ''/'' @ b) \<lparr>NODE_ENV = None, cwd = ''/app''\<rparr>
             JUndefined [] [])) ([], 0::nat)))) =
   fst (buildWebpackConfiguration_run (\<lambda>c args n. (JNew c args, Suc n))
       (fst (loadSettings (\<lambda>a b. a @ ''/'' @ b) \<lparr>NODE_ENV = None, cwd = ''/app''\<rparr>
          JUndefined [] [])) ([], 0::nat))"
proof -
  let ?new = "\<lambda>c args n. (JNew c args, Suc n)"
  let ?s = "fst (loadSettings (\<lambda>a b. a @ ''/'' @ b) \<lparr>NODE_ENV = None, cwd = ''/app''\<rparr>
          JUndefined [] [])"
  have pure: "\<forall>c args x x'. fst (?new c args (x::nat)) = fst (?new c args x')"
    by simp
  have n: "copyExistingFiles ?s = None"
    by (simp add: loadSettings_def Let_def del: str.simps seq.simps alts.simps)
  have count: "snd (snd (buildWebpackConfiguration_run ?new ?s ([], 0::nat))) = 2"
    using n by (simp add: buildWebpackConfiguration_run_def run_defs split_beta Let_def)
  from aggregator_is_deterministic [of ?new ?s "([], 0::nat)", THEN conjunct1] pure
  have again: "fst (buildWebpackConfiguration_run ?new ?s
        (snd (buildWebpackConfiguration_run ?new ?s ([], 0::nat)))) =
      fst (buildWebpackConfiguration_run ?new ?s ([], 0::nat))"
    by blast
  from pure count again show ?thesis by blast
qed

text \<open>
  What the assumption on the packages rules out: a constructor that numbered its instances
  would give the second invocation other instances than the first, for every settings
  record.
\<close>

lemma stamping_constructor_differs:
  "fst (buildWebpackConfiguration_run (\<lambda>c args n. (JNew c (JNum n # args), n + 1)) s
      (snd (buildWebpackConfiguration_run (\<lambda>c args n. (JNew c (JNum n # args), n + 1)) s
         (out, 0)))) \<noteq>
   fst (buildWebpackConfiguration_run (\<lambda>c args n. (JNew c (JNum n # args), n + 1)) s (out, 0))"
  by (simp add: buildWebpackConfiguration_run_def run_defs section_defs split_beta Let_def
      split: option.splits)

section \<open>Resolution and Node\<close>

text \<open>
  C8. For every settings record, \<open>resolve.extensions\<close> is \<^verbatim>\<open>.ts\<close>, \<^verbatim>\<open>.tsx\<close> and the
  entry \<^verbatim>\<open>...\<close> that stands for the default extensions; expanded, the list is the two
  typed extensions followed by the defaults.
\<close>

theorem resolvable_extensions:
  "js_get (js_get (fst (buildWebpackConfiguration s out)) ''resolve'') ''extensions'' =
     JArr [JStr ''.ts'', JStr ''.tsx'', JStr ''...''] \<and>
   expand_extensions (elements
     (js_get (js_get (fst (buildWebpackConfiguration s out)) ''resolve'') ''extensions'')) =
     [JStr ''.ts'', JStr ''.tsx''] @ default_extensions"
  by (simp add: aggregate_sections section_defs Let_def)

text \<open>
  C9. For every settings record, \<open>resolve.fallback\<close> sets \<open>fs\<close> and \<open>path\<close> to
  \<^verbatim>\<open>false\<close>, and \<open>node\<close> sets \<open>global\<close> to \<^verbatim>\<open>true\<close> and \<open>__filename\<close> and
  \<open>__dirname\<close> to \<^verbatim>\<open>false\<close>.
\<close>

theorem node_fallbacks_and_polyfills:
  "js_get (js_get (fst (buildWebpackConfiguration s out)) ''resolve'') ''fallback'' =
     JObj [(''fs'', JBool False), (''path'', JBool False)] \<and>
   js_get (fst (buildWebpackConfiguration s out)) ''node'' =
     JObj [(''global'', JBool True), (''__filename'', JBool False),
           (''__dirname'', JBool False)]"
  by (simp add: aggregate_sections section_defs Let_def)

section \<open>The exclusion of the source-map rule\<close>

text \<open>
  C10, as amended. For every settings record the source-map rule is a \<open>pre\<close> rule that
  tests the source-map pattern and excludes the dependencies pattern of the settings, so it
  applies to a resource exactly when the first pattern matches its path and the second does
  not. With the settings the loader builds, the dependencies pattern matches every path
  that contains the text \<^verbatim>\<open>node_modules\<close>: the rule applies to no such path, hence to no
  path under a \<^verbatim>\<open>node_modules\<close> directory, and it applies to every path without that
  text that the source-map pattern matches.
\<close>

theorem source_map_rule_excludes_dependencies:
  "(\<exists>r. createSourceMapsLoader s = [r] \<and>
      js_get r ''test'' = JRegExp (sourceMapFiles (patterns s)) \<and>
      js_get r ''exclude'' = JRegExp (dependenciesFiles (patterns s)) \<and>
      js_get r ''enforce'' = JStr ''pre'' \<and>
      (\<forall>resource. rule_applies r resource \<longleftrightarrow>
         regexp_test (sourceMapFiles (patterns s)) resource \<and>
         \<not> regexp_test (dependenciesFiles (patterns s)) resource)) \<and>
   (\<forall>r \<in> set (createSourceMapsLoader (fst (loadSettings path_join p env argv out))).
      \<forall>resource.
        (\<forall>before after. \<not> rule_applies r (before @ ''node_modules'' @ after)) \<and>
        (''node_modules'' \<in> set (segments resource) \<longrightarrow> \<not> rule_applies r resource) \<and>
        (regexp_test (sourceMapFiles (patterns (fst (loadSettings path_join p env argv out))))
           resource \<and>
         (\<nexists>before after. resource = before @ ''node_modules'' @ after) \<longrightarrow>
         rule_applies r resource))"
proof -
  let ?l = "fst (loadSettings path_join p env argv out)"
  have a: "\<exists>r. createSourceMapsLoader s = [r] \<and>
      js_get r ''test'' = JRegExp (sourceMapFiles (patterns s)) \<and>
      js_get r ''exclude'' = JRegExp (dependenciesFiles (patterns s)) \<and>
      js_get r ''enforce'' = JStr ''pre'' \<and>
      (\<forall>resource. rule_applies r resource \<longleftrightarrow>
         regexp_test (sourceMapFiles (patterns s)) resource \<and>
         \<not> regexp_test (dependenciesFiles (patterns s)) resource)"
    by (simp add: createSourceMapsLoader_def rule_applies_def)
  have dep: "regexp_test (dependenciesFiles (patterns ?l)) resource \<longleftrightarrow>
      (\<exists>before after. resource = before @ ''node_modules'' @ after)" for resource
    by (simp only: loadSettings_dependenciesFiles regexp_test.simps re_search_str)
  have b: "\<forall>r \<in> set (createSourceMapsLoader ?l). \<forall>resource.
        (\<forall>before after. \<not> rule_applies r (before @ ''node_modules'' @ after)) \<and>
        (regexp_test (sourceMapFiles (patterns ?l)) resource \<and>
         (\<nexists>before after. resource = before @ ''node_modules'' @ after) \<longrightarrow>
         rule_applies r resource)"
    using dep by (auto simp: createSourceMapsLoader_def rule_applies_def)
  have c: "\<forall>r \<in> set (createSourceMapsLoader ?l). \<forall>resource.
        ''node_modules'' \<in> set (segments resource) \<longrightarrow> \<not> rule_applies r resource"
  proof (intro ballI allI impI)
    fix r resource
    assume r: "r \<in> set (createSourceMapsLoader ?l)"
      and "''node_modules'' \<in> set (segments resource)"
    then obtain before after where "resource = before @ ''node_modules'' @ after"
      using segments_infix by blast
    with b r show "\<not> rule_applies r resource" by blast
  qed
  from a b c show ?thesis by blast
qed

theorem source_map_rule_excludes_dependencies_witness:
  "\<exists>r. createSourceMapsLoader (fst (loadSettings (\<lambda>a b. a @ ''/'' @ b)
          \<lparr>NODE_ENV = None, cwd = ''/app''\<rparr> JUndefined [] [])) = [r] \<and>
      \<not> rule_applies r ''/app/node_modules/react/index.js'' \<and>
      rule_applies r ''/app/src/legacy/widget.js''"
proof -
  let ?l = "fst (loadSettings (\<lambda>a b. a @ ''/'' @ b) \<lparr>NODE_ENV = None, cwd = ''/app''\<rparr>
      JUndefined [] [])"
  note t = source_map_rule_excludes_dependencies
    [of ?l "\<lambda>a b. a @ ''/'' @ b" "\<lparr>NODE_ENV = None, cwd = ''/app''\<rparr>" JUndefined "[]" "[]"]
  from t [THEN conjunct1] obtain r where r: "createSourceMapsLoader ?l = [r]"
    by blast
  then have mem: "r \<in> set (createSourceMapsLoader ?l)"
    by simp
  have path: "''/app/node_modules/react/index.js'' =
      ''/app/'' @ ''node_modules'' @ ''/react/index.js''"
    by simp
  from t [THEN conjunct2] mem
  have neg: "\<not> rule_applies r (''/app/'' @ ''node_modules'' @ ''/react/index.js'')"
    by blast
  have script: "regexp_test (sourceMapFiles (patterns ?l)) ''/app/src/legacy/widget.js''"
    by (simp add: loadSettings_def Let_def char_eq_def canonicalize_def)
  have "\<not> re_search False (str ''node_modules'') ''/app/src/legacy/widget.js''"
    by (simp add: char_eq_def)
  then have outside: "\<nexists>before after.
      ''/app/src/legacy/widget.js'' = before @ ''node_modules'' @ after"
    using re_search_str by blast
  from t [THEN conjunct2] mem script outside
  have pos: "rule_applies r ''/app/src/legacy/widget.js''"
    by blast
  from r neg pos show ?thesis
    unfolding path by blast
qed

text \<open>
  C10 as first stated fails for script files outside \<^verbatim>\<open>node_modules\<close> whose path
  contains that text: in a development build, \<^verbatim>\<open>/app/src/node_modules_shim.js\<close> has no
  directory named \<^verbatim>\<open>node_modules\<close> and matches the source-map pattern, yet the rule
  does not apply to it.
\<close>

theorem file_outside_node_modules_not_matched:
  "mode (fst (loadSettings (\<lambda>a b. a @ ''/'' @ b) \<lparr>NODE_ENV = None, cwd = ''/app''\<rparr>
       JUndefined [] [])) = BuildMode_development \<and>
   length (createSourceMapsLoader (fst (loadSettings (\<lambda>a b. a @ ''/'' @ b)
       \<lparr>NODE_ENV = None, cwd = ''/app''\<rparr> JUndefined [] []))) = 1 \<and>
   segments ''/app/src/node_modules_shim.js'' =
     [[], ''app'', ''src'', ''node_modules_shim.js''] \<and>
   ''node_modules'' \<notin> set (segments ''/app/src/node_modules_shim.js'') \<and>
   regexp_test (sourceMapFiles (patterns (fst (loadSettings (\<lambda>a b. a @ ''/'' @ b)
       \<lparr>NODE_ENV = None, cwd = ''/app''\<rparr> JUndefined [] []))))
     ''/app/src/node_modules_shim.js'' \<and>
   \<not> rule_applies (createSourceMapsLoader (fst (loadSettings (\<lambda>a b. a @ ''/'' @ b)
       \<lparr>NODE_ENV = None, cwd = ''/app''\<rparr> JUndefined [] [])) ! 0)
     ''/app/src/node_modules_shim.js''"
proof -
  let ?l = "fst (loadSettings (\<lambda>a b. a @ ''/'' @ b) \<lparr>NODE_ENV = None, cwd = ''/app''\<rparr>
       JUndefined [] [])"
  have m: "mode ?l = BuildMode_development"
    by (simp add: loadSettings_mode js_or_def option_jv_def)
  have n: "length (createSourceMapsLoader ?l) = 1"
    by (simp add: createSourceMapsLoader_def)
  have seg: "segments ''/app/src/node_modules_shim.js'' =
      [[], ''app'', ''src'', ''node_modules_shim.js'']"
    by (simp add: segments_def)
  have script: "regexp_test (sourceMapFiles (patterns ?l)) ''/app/src/node_modules_shim.js''"
    by (simp add: loadSettings_def Let_def char_eq_def canonicalize_def)
  have dep: "regexp_test (dependenciesFiles (patterns ?l)) ''/app/src/node_modules_shim.js''"
    by (simp add: loadSettings_dependenciesFiles char_eq_def)
  have no: "\<not> rule_applies (createSourceMapsLoader ?l ! 0) ''/app/src/node_modules_shim.js''"
    using dep by (simp add: createSourceMapsLoader_def rule_applies_def)
  have out: "''node_modules'' \<notin> set (segments ''/app/src/node_modules_shim.js'')"
    unfolding seg by simp
  from m n seg out script no show ?thesis by blast
qed

end
